theory Spec2Isabelle
  imports Complex_Main
begin

section \<open>Values, exceptions and the job registry\<close>

text \<open>
  The backend keeps one global dictionary \<open>jobs\<close> from job identifiers to job dictionaries.
  A job dictionary always carries the keys \<open>status\<close>, \<open>current_stage\<close>, \<open>progress\<close>,
  \<open>is_completed\<close> and \<open>error\<close> (written together by the initialisation in
  \<open>process_image\<close>); the key \<open>assets\<close> is added only by the final update, so it is an
  option whose \<open>None\<close> stands for the absent key (every read goes through
  \<open>job.get("assets")\<close>, which gives Python's \<open>None\<close> for it). The value of \<open>error\<close> is
  Python's \<open>None\<close> or a string.

  The progress values are floating-point literals that are only stored and compared, never
  computed with; they are modelled by the rationals they denote. Rounding a decimal literal
  to a double is monotone and the nine literals of the program are distinct doubles, so the
  order of the rationals is the order of the stored values.
\<close>

datatype pyval =
    PStr string
  | PFloat rat
  | PList "pyval list"
  | PDict "(string \<times> pyval) list"

datatype exn =
    Exception string
  | KeyError string

text \<open>
  The exceptions are those an \<open>except Exception\<close> clause catches (the cancellation of a
  task is outside them and outside this model). \<open>Exception m\<close> is any of them whose
  \<open>str()\<close> is \<open>m\<close>. \<open>KeyError k\<close> is what a lookup \<open>jobs[k]\<close> of an absent key raises;
  its \<open>str()\<close> is the \<open>repr\<close> of the key.

  \<open>repr\<close> of a string, for characters that are code points below 256: the string goes
  between single quotes, or between double quotes when it holds a single quote and no
  double quote; the quote in use and the backslash are escaped by a backslash; tab, line
  feed and carriage return are written \<open>\t\<close>, \<open>\n\<close>, \<open>\r\<close>; every other unprintable
  character (the control characters, the no-break space and the soft hyphen) is written
  \<open>\xhh\<close> with two lower-case hexadecimal digits.
\<close>

definition hexdigit :: "nat \<Rightarrow> char" where
  "hexdigit n = ''0123456789abcdef'' ! (n mod 16)"

definition printable :: "char \<Rightarrow> bool" where
  "printable c =
    (let n = (of_char c :: nat)
     in if n < 0x20 then False
        else if n < 0x7F then True
        else if n < 0xA1 then False
        else n \<noteq> 0xAD)"

definition repr_char :: "char \<Rightarrow> char \<Rightarrow> string" where
  "repr_char quote c =
    (if c = quote \<or> c = CHR 0x5C then [CHR 0x5C, c]
     else if c = CHR 0x09 then [CHR 0x5C, CHR ''t'']
     else if c = CHR 0x0A then [CHR 0x5C, CHR ''n'']
     else if c = CHR 0x0D then [CHR 0x5C, CHR ''r'']
     else if printable c then [c]
     else [CHR 0x5C, CHR ''x'', hexdigit (of_char c div 16), hexdigit (of_char c)])"

definition repr :: "string \<Rightarrow> string" where
  "repr s =
    (let quote = (if CHR 0x27 \<in> set s \<and> CHR 0x22 \<notin> set s then CHR 0x22 else CHR 0x27)
     in [quote] @ concat (map (repr_char quote) s) @ [quote])"

fun str_exn :: "exn \<Rightarrow> string" where
  "str_exn (Exception m) = m"
| "str_exn (KeyError k) = repr k"

datatype failure =
    HTTPException nat string
  | ValidationError "string list list"

text \<open>
  The response model \<open>JobStatus\<close>; its fields, in order: \<open>job_id\<close>, \<open>current_stage\<close>,
  \<open>progress\<close>, \<open>is_completed\<close>, \<open>assets\<close> (\<open>Optional[Dict[str, str]]\<close>) and \<open>error\<close>
  (\<open>Optional[str]\<close>).
\<close>

datatype JobStatus =
  JobStatus string string rat bool "(string \<times> string) list option" "string option"

record job =
  status :: string
  current_stage :: string
  progress :: rat
  is_completed :: bool
  error :: "string option"
  assets :: "(string \<times> pyval) list option"

type_synonym registry = "string \<rightharpoonup> job"

section \<open>The stage table\<close>

definition STAGES :: "(string \<times> string \<times> rat) list" where
  "STAGES =
    [(''uploading'', ''Uploading to backend...'', 1/10),
     (''segmentation'', ''MODNet person segmentation...'', 2/10),
     (''depth_analysis'', ''MiDaS depth estimation...'', 3/10),
     (''mesh_generation'', ''RenderNet 3D mesh creation...'', 5/10),
     (''texture_mapping'', ''PIKE texture generation...'', 7/10),
     (''rigging'', ''Adding facial blendshapes...'', 8/10),
     (''animation'', ''Injecting breathing & micro-motions...'', 9/10),
     (''unity_prep'', ''Preparing for Unity import...'', 95/100),
     (''completed'', ''Ready for 3D world!'', 1)]"

section \<open>Coroutines\<close>

text \<open>
  \<open>process_image\<close> and the six stage handlers are coroutines. Each is modelled by the
  list of its statements in source order. A statement either writes the registry
  (\<open>jobs[k] = v\<close>, \<open>jobs[k].update({...})\<close>), suspends (\<open>await asyncio.sleep(n)\<close>) or prints.
  Awaiting a handler runs its statements in place, so the body of \<open>process_image\<close> is the
  concatenation of the handlers' statements between its own.

  The stage computations are stubs in the source: the sleep stands for the computation and
  never raises. The claims about failing handlers need a handler that can raise, so every
  sleep carries the outcome of the computation it stands for: \<open>None\<close> when it completes,
  \<open>Some e\<close> when it raises \<open>e\<close>. The outcome is looked up in a plan \<open>work\<close> under the name
  of the stage that is executing. The source as written is the plan \<open>stub\<close>.
\<close>

datatype instr =
    Assign string job
  | Update string "job \<Rightarrow> job"
  | Sleep nat "exn option"
  | Print string

fun exec :: "instr \<Rightarrow> registry \<Rightarrow> exn + registry" where
  "exec (Assign k v) js = Inr (js(k \<mapsto> v))"
| "exec (Update k f) js =
     (case js k of None \<Rightarrow> Inl (KeyError k) | Some j \<Rightarrow> Inr (js(k \<mapsto> f j)))"
| "exec (Sleep n r) js = (case r of None \<Rightarrow> Inr js | Some e \<Rightarrow> Inl e)"
| "exec (Print s) js = Inr js"

fun writes :: "instr \<Rightarrow> bool" where
  "writes (Assign k v) = True"
| "writes (Update k f) = True"
| "writes (Sleep n r) = False"
| "writes (Print s) = False"

text \<open>
  A task is a coroutine in execution: the statements still to run and, while control is
  inside the \<open>try\<close> block, the \<open>except Exception as e\<close> clause. \<open>Done None\<close> is a task that
  returned, \<open>Done (Some e)\<close> one that died with the exception \<open>e\<close>.
\<close>

datatype task =
    Task "instr list" "(exn \<Rightarrow> instr list) option"
  | Done "exn option"

definition stub :: "string \<Rightarrow> exn option" where
  "stub stage = None"

type_synonym bytes = string

definition segment_person :: "(string \<Rightarrow> exn option) \<Rightarrow> string \<Rightarrow> bytes \<Rightarrow> instr list" where
  "segment_person work job_id image_data =
    [Update job_id (\<lambda>j. j\<lparr>current_stage := ''segmentation'', progress := 2/10\<rparr>),
     Sleep 2 (work ''segmentation''),
     Print (''['' @ job_id @ ''] Person segmentation completed'')]"

definition estimate_depth :: "(string \<Rightarrow> exn option) \<Rightarrow> string \<Rightarrow> bytes \<Rightarrow> instr list" where
  "estimate_depth work job_id image_data =
    [Update job_id (\<lambda>j. j\<lparr>current_stage := ''depth_analysis'', progress := 3/10\<rparr>),
     Sleep 3 (work ''depth_analysis''),
     Print (''['' @ job_id @ ''] Depth estimation completed'')]"

definition generate_3d_mesh :: "(string \<Rightarrow> exn option) \<Rightarrow> string \<Rightarrow> instr list" where
  "generate_3d_mesh work job_id =
    [Update job_id (\<lambda>j. j\<lparr>current_stage := ''mesh_generation'', progress := 5/10\<rparr>),
     Sleep 4 (work ''mesh_generation''),
     Print (''['' @ job_id @ ''] 3D mesh generation completed'')]"

definition apply_textures :: "(string \<Rightarrow> exn option) \<Rightarrow> string \<Rightarrow> instr list" where
  "apply_textures work job_id =
    [Update job_id (\<lambda>j. j\<lparr>current_stage := ''texture_mapping'', progress := 7/10\<rparr>),
     Sleep 3 (work ''texture_mapping''),
     Print (''['' @ job_id @ ''] Texture mapping completed'')]"

definition add_animations :: "(string \<Rightarrow> exn option) \<Rightarrow> string \<Rightarrow> instr list" where
  "add_animations work job_id =
    [Update job_id (\<lambda>j. j\<lparr>current_stage := ''rigging'', progress := 8/10\<rparr>),
     Sleep 2 (work ''rigging''),
     Update job_id (\<lambda>j. j\<lparr>current_stage := ''animation'', progress := 9/10\<rparr>),
     Sleep 2 (work ''animation''),
     Print (''['' @ job_id @ ''] Animation rigging completed'')]"

definition prepare_for_unity :: "(string \<Rightarrow> exn option) \<Rightarrow> string \<Rightarrow> instr list" where
  "prepare_for_unity work job_id =
    [Update job_id (\<lambda>j. j\<lparr>current_stage := ''unity_prep'', progress := 95/100\<rparr>),
     Sleep 1 (work ''unity_prep''),
     Print (''['' @ job_id @ ''] Unity preparation completed'')]"

definition metadata :: pyval where
  "metadata = PDict
    [(''facialFeatures'', PDict
        [(''eyeColor'', PStr ''brown''),
         (''skinTone'', PStr ''medium''),
         (''facialStructure'', PDict [(''jawWidth'', PFloat (8/10)), (''eyeDistance'', PFloat (6/10))]),
         (''expressionCapabilities'', PList [PStr ''smile'', PStr ''blink'', PStr ''frown''])]),
     (''bodyMeasurements'', PDict
        [(''height'', PFloat (175/100)),
         (''proportions'', PDict [(''shoulderWidth'', PFloat (45/100)), (''waistWidth'', PFloat (35/100))]),
         (''postureData'', PDict [(''spineAlignment'', PFloat (9/10))])]),
     (''animationConfig'', PDict
        [(''breathingRate'', PFloat 16),
         (''blinkFrequency'', PFloat 15),
         (''microMotions'', PDict [(''headSway'', PFloat (3/10)), (''weightShift'', PFloat (2/10))]),
         (''idlePoses'', PList [PStr ''neutral'', PStr ''slight_lean'', PStr ''hand_on_hip''])])]"

definition result_assets :: "string \<Rightarrow> (string \<times> pyval) list" where
  "result_assets job_id =
    [(''modelURL'',
        PStr (''https://api.mirrorworld-backend.replit.app/assets/'' @ job_id @ ''/model.glb'')),
     (''textureURL'',
        PStr (''https://api.mirrorworld-backend.replit.app/assets/'' @ job_id @ ''/texture.jpg'')),
     (''animationData'',
        PStr (''https://api.mirrorworld-backend.replit.app/assets/'' @ job_id @ ''/animations.json'')),
     (''metadata'', metadata)]"

definition initial_job :: job where
  "initial_job =
    \<lparr>status = ''processing'', current_stage = ''uploading'', progress = 1/10,
     is_completed = False, error = None, assets = None\<rparr>"

definition process_image :: "(string \<Rightarrow> exn option) \<Rightarrow> string \<Rightarrow> bytes \<Rightarrow> 'c \<Rightarrow> task" where
  "process_image work job_id image_data config =
    Task
      ([Assign job_id initial_job]
       @ segment_person work job_id image_data
       @ estimate_depth work job_id image_data
       @ generate_3d_mesh work job_id
       @ apply_textures work job_id
       @ add_animations work job_id
       @ prepare_for_unity work job_id
       @ [Update job_id (\<lambda>j. j\<lparr>current_stage := ''completed'', progress := 1,
                                  is_completed := True, assets := Some (result_assets job_id)\<rparr>)])
      (Some (\<lambda>e. [Update job_id (\<lambda>j. j\<lparr>error := Some (str_exn e), is_completed := True\<rparr>)]))"

section \<open>Running a task\<close>

text \<open>
  \<open>run\<close> drives a task to its end and returns the registry as it stands after each
  write, in order: the successive states of the registry. A statement that raises inside
  the \<open>try\<close> block hands control to the \<open>except\<close> clause; outside it the task dies.
  \<open>outcome\<close> is how the task ends: \<open>None\<close> when it returns, \<open>Some e\<close> when it dies.
\<close>

fun rank :: "task \<Rightarrow> nat \<times> nat" where
  "rank (Done r) = (0, 0)"
| "rank (Task is h) = ((case h of None \<Rightarrow> 0 | Some handler \<Rightarrow> 1), Suc (length is))"

function run :: "task \<Rightarrow> registry \<Rightarrow> registry list" where
  "run (Done r) js = []"
| "run (Task [] h) js = []"
| "run (Task (i # is) h) js =
     (case exec i js of
        Inr js' \<Rightarrow> (if writes i then js' # run (Task is h) js' else run (Task is h) js')
      | Inl e \<Rightarrow> (case h of
                   Some handler \<Rightarrow> run (Task (handler e) None) js
                 | None \<Rightarrow> []))"
  by pat_completeness auto
termination
  by (relation "inv_image (less_than <*lex*> less_than) (\<lambda>(t, js). rank t)")
     (auto split: option.splits)

function outcome :: "task \<Rightarrow> registry \<Rightarrow> exn option" where
  "outcome (Done r) js = r"
| "outcome (Task [] h) js = None"
| "outcome (Task (i # is) h) js =
     (case exec i js of
        Inr js' \<Rightarrow> outcome (Task is h) js'
      | Inl e \<Rightarrow> (case h of
                   Some handler \<Rightarrow> outcome (Task (handler e) None) js
                 | None \<Rightarrow> Some e))"
  by pat_completeness auto
termination
  by (relation "inv_image (less_than <*lex*> less_than) (\<lambda>(t, js). rank t)")
     (auto split: option.splits)

text \<open>
  A task gives control back to the event loop only where it suspends, at a sleep; the
  request handlers run between two suspensions, never between two statements of one
  stretch. \<open>suspensions\<close> is the registry at each sleep of the run, in order: what the
  pollers see while the computation of a stage is under way.
\<close>

fun suspends :: "instr \<Rightarrow> bool" where
  "suspends (Assign k v) = False"
| "suspends (Update k f) = False"
| "suspends (Sleep n r) = True"
| "suspends (Print s) = False"

function suspensions :: "task \<Rightarrow> registry \<Rightarrow> registry list" where
  "suspensions (Done r) js = []"
| "suspensions (Task [] h) js = []"
| "suspensions (Task (i # is) h) js =
     (if suspends i then [js] else []) @
     (case exec i js of
        Inr js' \<Rightarrow> suspensions (Task is h) js'
      | Inl e \<Rightarrow> (case h of
                   Some handler \<Rightarrow> suspensions (Task (handler e) None) js
                 | None \<Rightarrow> []))"
  by pat_completeness auto
termination
  by (relation "inv_image (less_than <*lex*> less_than) (\<lambda>(t, js). rank t)")
     (auto split: option.splits)

section \<open>The HTTP endpoints\<close>

text \<open>
  The state of the server process: the global dictionary \<open>jobs\<close> and the tasks that
  \<open>asyncio.create_task\<close> has handed to the event loop. \<open>create_task\<close> only schedules the
  coroutine: none of its statements runs before the caller returns control to the loop.
\<close>

record server =
  jobs :: registry
  tasks :: "task list"

text \<open>
  Building a \<open>JobStatus\<close> validates the arguments against the declared field types. The
  values read from a job have the declared types except for \<open>assets\<close>, declared
  \<open>Optional[Dict[str, str]]\<close>: each value of the dictionary must be a string. A dictionary
  or a list is never one. Whether a number is turned into its text depends on the version of
  the validation library, so that conversion is the parameter \<open>num_str\<close> (\<open>None\<close>: the
  number is refused). The validation error lists the location of every refused value.
\<close>

fun str_validator :: "(rat \<Rightarrow> string option) \<Rightarrow> pyval \<Rightarrow> string option" where
  "str_validator num_str (PStr s) = Some s"
| "str_validator num_str (PFloat x) = num_str x"
| "str_validator num_str (PList xs) = None"
| "str_validator num_str (PDict kvs) = None"

fun dict_str_validator ::
  "(rat \<Rightarrow> string option) \<Rightarrow> (string \<times> pyval) list \<Rightarrow> string list \<times> (string \<times> string) list" where
  "dict_str_validator num_str [] = ([], [])"
| "dict_str_validator num_str ((k, v) # kvs) =
     (case dict_str_validator num_str kvs of
        (errors, items) \<Rightarrow>
          (case str_validator num_str v of
             None \<Rightarrow> (k # errors, items)
           | Some s \<Rightarrow> (errors, (k, s) # items)))"

definition new_JobStatus ::
  "(rat \<Rightarrow> string option) \<Rightarrow> string \<Rightarrow> string \<Rightarrow> rat \<Rightarrow> bool
     \<Rightarrow> (string \<times> pyval) list option \<Rightarrow> string option \<Rightarrow> failure + JobStatus" where
  "new_JobStatus num_str job_id stage prog completed asts err =
    (case asts of
       None \<Rightarrow> Inr (JobStatus job_id stage prog completed None err)
     | Some d \<Rightarrow>
         (case dict_str_validator num_str d of
            ([], items) \<Rightarrow> Inr (JobStatus job_id stage prog completed (Some items) err)
          | (k # errors, items) \<Rightarrow>
              Inl (ValidationError (map (\<lambda>k. [''assets'', k]) (k # errors)))))"

definition get_processing_status ::
  "(rat \<Rightarrow> string option) \<Rightarrow> string \<Rightarrow> server \<Rightarrow> failure + JobStatus" where
  "get_processing_status num_str job_id s =
    (case jobs s job_id of
       None \<Rightarrow> Inl (HTTPException 404 ''Job not found'')
     | Some job \<Rightarrow>
         new_JobStatus num_str job_id (current_stage job) (progress job) (is_completed job)
           (assets job) (error job))"

definition get_asset :: "string \<Rightarrow> string \<Rightarrow> server \<Rightarrow> failure + (string \<times> string) list" where
  "get_asset job_id filename s =
    Inr [(''message'', ''Asset '' @ filename @ '' for job '' @ job_id)]"

text \<open>
  \<open>process_avatar\<close> takes what the outside world supplies: the identifier that
  \<open>str(uuid.uuid4())\<close> produces, the result of reading the upload, the function
  \<open>json.loads\<close>, and the plan \<open>work\<close> of the pipeline it starts.
\<close>

record submit_response =
  jobId :: string
  estimatedTime :: nat
  message :: string

definition process_avatar ::
  "(string \<Rightarrow> exn + 'c) \<Rightarrow> (string \<Rightarrow> exn option) \<Rightarrow> string \<Rightarrow> exn + bytes \<Rightarrow> string
     \<Rightarrow> server \<Rightarrow> (failure + submit_response) \<times> server" where
  "process_avatar json_loads work uuid4 photo config s =
    (let job_id = uuid4 in
     case photo of
       Inl e \<Rightarrow> (Inl (HTTPException 500 (str_exn e)), s)
     | Inr image_data \<Rightarrow>
         (case json_loads config of
            Inl e \<Rightarrow> (Inl (HTTPException 500 (str_exn e)), s)
          | Inr config_dict \<Rightarrow>
              (Inr \<lparr>jobId = job_id, estimatedTime = 120,
                    message = ''Avatar generation started''\<rparr>,
               s\<lparr>tasks := tasks s @ [process_image work job_id image_data config_dict]\<rparr>)))"

section \<open>Notions used in the statements\<close>

text \<open>
  The stage and progress that a registry shows for a job, and the stages that have a
  handler: all of the table but \<open>uploading\<close>, written by the initialisation, and
  \<open>completed\<close>, written by the final update. \<open>first_failure work\<close> is the first stage, in
  the order of the table, whose computation raises under the plan \<open>work\<close>, with the
  exception; it is \<open>None\<close> when no computation raises. \<open>fail_at stage e\<close> is the plan under
  which exactly the computation of \<open>stage\<close> raises, with \<open>e\<close>.
\<close>

definition stage_of :: "string \<Rightarrow> registry \<Rightarrow> (string \<times> rat) option" where
  "stage_of job_id js = map_option (\<lambda>j. (current_stage j, progress j)) (js job_id)"

definition handler_stages :: "(string \<times> string \<times> rat) list" where
  "handler_stages = butlast (tl STAGES)"

fun first_failure_in ::
  "(string \<Rightarrow> exn option) \<Rightarrow> (string \<times> string \<times> rat) list
     \<Rightarrow> ((string \<times> string \<times> rat) \<times> exn) option" where
  "first_failure_in work [] = None"
| "first_failure_in work (st # sts) =
     (case work (fst st) of Some e \<Rightarrow> Some (st, e) | None \<Rightarrow> first_failure_in work sts)"

definition first_failure ::
  "(string \<Rightarrow> exn option) \<Rightarrow> ((string \<times> string \<times> rat) \<times> exn) option" where
  "first_failure work = first_failure_in work handler_stages"

definition fail_at :: "string \<Rightarrow> exn \<Rightarrow> string \<Rightarrow> exn option" where
  "fail_at stage e s = (if s = stage then Some e else None)"


definition no_reset :: "string \<Rightarrow> registry \<Rightarrow> registry \<Rightarrow> bool" where
  "no_reset job_id a b =
    (case a job_id of
       None \<Rightarrow> True
     | Some j \<Rightarrow>
         (case b job_id of
            None \<Rightarrow> False
          | Some j' \<Rightarrow> if is_completed j then is_completed j' else True))"

text \<open>Concrete inputs for the examples.\<close>

definition no_jobs :: registry where
  "no_jobs = Map.empty"

definition idle_server :: server where
  "idle_server = \<lparr>jobs = no_jobs, tasks = []\<rparr>"

definition accept_json :: "string \<Rightarrow> exn + unit" where
  "accept_json config = Inr ()"

definition refuse_numbers :: "rat \<Rightarrow> string option" where
  "refuse_numbers x = None"

definition finished_job :: job where
  "finished_job =
    \<lparr>status = ''processing'', current_stage = ''completed'', progress = 1,
     is_completed = True, error = None, assets = Some (result_assets ''job-1'')\<rparr>"

definition one_finished :: registry where
  "one_finished = no_jobs(''job-1'' \<mapsto> finished_job)"

section \<open>Facts about every run of the pipeline\<close>

lemmas pipeline_defs =
  process_image_def segment_person_def estimate_depth_def generate_3d_mesh_def
  apply_textures_def add_animations_def prepare_for_unity_def initial_job_def

text \<open>
  A plan either lets every computation complete or has a first stage whose computation
  raises: eight cases, in each of which the run is determined.
\<close>

lemma plan_cases
  [case_names ok segmentation depth_analysis mesh_generation texture_mapping rigging
     animation unity_prep]:
  obtains
    "work ''segmentation'' = None" "work ''depth_analysis'' = None"
    "work ''mesh_generation'' = None" "work ''texture_mapping'' = None"
    "work ''rigging'' = None" "work ''animation'' = None" "work ''unity_prep'' = None"
  | e where "work ''segmentation'' = Some e"
  | e where "work ''segmentation'' = None" "work ''depth_analysis'' = Some e"
  | e where "work ''segmentation'' = None" "work ''depth_analysis'' = None"
      "work ''mesh_generation'' = Some e"
  | e where "work ''segmentation'' = None" "work ''depth_analysis'' = None"
      "work ''mesh_generation'' = None" "work ''texture_mapping'' = Some e"
  | e where "work ''segmentation'' = None" "work ''depth_analysis'' = None"
      "work ''mesh_generation'' = None" "work ''texture_mapping'' = None"
      "work ''rigging'' = Some e"
  | e where "work ''segmentation'' = None" "work ''depth_analysis'' = None"
      "work ''mesh_generation'' = None" "work ''texture_mapping'' = None"
      "work ''rigging'' = None" "work ''animation'' = Some e"
  | e where "work ''segmentation'' = None" "work ''depth_analysis'' = None"
      "work ''mesh_generation'' = None" "work ''texture_mapping'' = None"
      "work ''rigging'' = None" "work ''animation'' = None" "work ''unity_prep'' = Some e"
  by (meson option.exhaust)

text \<open>The first write of every run stores the initial job under the identifier.\<close>

lemma run_first_write:
  "run (process_image work job_id image_data config) js \<noteq> []
   \<and> hd (run (process_image work job_id image_data config) js) = js(job_id \<mapsto> initial_job)"
  by (simp add: pipeline_defs)

text \<open>From the first write on the job is in the registry, so the query finds it.\<close>

lemma run_status_found:
  "list_all
     (\<lambda>js'. get_processing_status num_str job_id \<lparr>jobs = js', tasks = ts\<rparr>
            \<noteq> Inl (HTTPException 404 ''Job not found''))
     (run (process_image work job_id image_data config) js)"
  by (cases rule: plan_cases [of work])
     (simp_all add: pipeline_defs get_processing_status_def new_JobStatus_def
        result_assets_def metadata_def)

text \<open>A run writes the entry of its own identifier only.\<close>

lemma run_frame:
  "job_id' \<noteq> job_id \<Longrightarrow>
     list_all (\<lambda>js'. js' job_id = js job_id)
       (run (process_image work job_id' image_data config) js)"
  by (cases rule: plan_cases [of work]) (simp_all add: pipeline_defs)

section \<open>Submission and the first status query\<close>

text \<open>
  Claim C1 says that the identifier a submission returns is valid for the status query at
  once, even before the first write of the executor. It is not: \<open>process_avatar\<close> creates
  no job, it only schedules \<open>process_image\<close>. On a server whose registry is empty a
  submission succeeds with the identifier \<open>job-1\<close>, and the status query for \<open>job-1\<close> on
  the state the submission leaves raises 404.
\<close>

theorem submit_creates_no_job_counterexample:
  "fst (process_avatar accept_json stub ''job-1'' (Inr ''image'') ''{}'' idle_server)
     = Inr \<lparr>jobId = ''job-1'', estimatedTime = 120, message = ''Avatar generation started''\<rparr>
   \<and> get_processing_status refuse_numbers ''job-1''
         (snd (process_avatar accept_json stub ''job-1'' (Inr ''image'') ''{}'' idle_server))
       = Inl (HTTPException 404 ''Job not found'')"
  by (simp add: process_avatar_def Let_def accept_json_def idle_server_def no_jobs_def
        get_processing_status_def)

text \<open>
  Claim C1, as the code has it. A successful submission leaves the registry as it was and
  appends the executor task to the scheduled tasks, so the status query for the returned
  identifier raises 404 on the state the submission leaves, unless the identifier was a key
  of the registry before. The identifier becomes valid with the first write of the
  executor, the initialisation that opens \<open>process_image\<close>: whatever the registry is when
  the task runs, the run has a first write; the status query on the registry after it
  returns the job in its initial state (\<open>uploading\<close>, 0.1, not completed, no assets, no
  error); and on the registry after every write of the run the query does not raise 404.
\<close>

theorem job_valid_from_first_write:
  fixes json_loads :: "string \<Rightarrow> exn + 'c"
  assumes "process_avatar json_loads work new_id photo request_config s = (Inr r, s')"
  shows "jobs s' = jobs s
   \<and> (jobs s (jobId r) = None \<longrightarrow>
        get_processing_status num_str (jobId r) s' = Inl (HTTPException 404 ''Job not found''))
   \<and> tasks s' = tasks s @ [last (tasks s')]
   \<and> run (last (tasks s')) js \<noteq> []
   \<and> get_processing_status num_str (jobId r) \<lparr>jobs = hd (run (last (tasks s')) js), tasks = ts\<rparr>
       = Inr (JobStatus (jobId r) ''uploading'' (1/10) False None None)
   \<and> list_all
       (\<lambda>js'. get_processing_status num_str (jobId r) \<lparr>jobs = js', tasks = ts\<rparr>
              \<noteq> Inl (HTTPException 404 ''Job not found''))
       (run (last (tasks s')) js)"
proof -
  from assms obtain image_data and config_dict :: 'c where
    r: "r = \<lparr>jobId = new_id, estimatedTime = 120, message = ''Avatar generation started''\<rparr>"
    and s': "s' = s\<lparr>tasks := tasks s @ [process_image work new_id image_data config_dict]\<rparr>"
    by (auto simp add: process_avatar_def Let_def split: sum.splits)
  have t: "last (tasks s') = process_image work new_id image_data config_dict"
    by (simp add: s')
  have first: "run (process_image work new_id image_data config_dict) js \<noteq> []"
    "hd (run (process_image work new_id image_data config_dict) js) = js(new_id \<mapsto> initial_job)"
    using run_first_write [of work new_id image_data config_dict js] by simp_all
  have unknown: "jobs s (jobId r) = None \<longrightarrow>
        get_processing_status num_str (jobId r) s' = Inl (HTTPException 404 ''Job not found'')"
    by (simp add: r s' get_processing_status_def)
  have initial: "get_processing_status num_str (jobId r)
        \<lparr>jobs = hd (run (last (tasks s')) js), tasks = ts\<rparr>
       = Inr (JobStatus (jobId r) ''uploading'' (1/10) False None None)"
    by (simp add: t first r get_processing_status_def new_JobStatus_def initial_job_def)
  have found: "list_all
       (\<lambda>js'. get_processing_status num_str (jobId r) \<lparr>jobs = js', tasks = ts\<rparr>
              \<noteq> Inl (HTTPException 404 ''Job not found''))
       (run (last (tasks s')) js)"
    using run_status_found [of num_str new_id ts work image_data config_dict js]
    by (simp add: t r)
  have "jobs s' = jobs s" "tasks s' = tasks s @ [last (tasks s')]"
    by (simp_all add: s')
  with unknown initial found first(1) t show ?thesis
    by (simp only: simp_thms)
qed

text \<open>
  The hypothesis is met by the submission above; its task, run on the empty registry,
  makes \<open>job-1\<close> valid with its first write.
\<close>

theorem job_valid_from_first_write_witness:
  "process_avatar accept_json stub ''job-1'' (Inr ''image'') ''{}'' idle_server
     = (Inr \<lparr>jobId = ''job-1'', estimatedTime = 120, message = ''Avatar generation started''\<rparr>,
        \<lparr>jobs = no_jobs, tasks = [process_image stub ''job-1'' ''image'' ()]\<rparr>)
   \<and> get_processing_status refuse_numbers ''job-1''
         \<lparr>jobs = no_jobs, tasks = [process_image stub ''job-1'' ''image'' ()]\<rparr>
       = Inl (HTTPException 404 ''Job not found'')
   \<and> get_processing_status refuse_numbers ''job-1''
         \<lparr>jobs = hd (run (process_image stub ''job-1'' ''image'' ()) no_jobs), tasks = []\<rparr>
       = Inr (JobStatus ''job-1'' ''uploading'' (1/10) False None None)"
proof -
  have h: "process_avatar accept_json stub ''job-1'' (Inr ''image'') ''{}'' idle_server
     = (Inr \<lparr>jobId = ''job-1'', estimatedTime = 120, message = ''Avatar generation started''\<rparr>,
        \<lparr>jobs = no_jobs, tasks = [process_image stub ''job-1'' ''image'' ()]\<rparr>)"
    by (simp add: process_avatar_def Let_def accept_json_def idle_server_def)
  have n: "no_jobs ''job-1'' = None"
    by (simp add: no_jobs_def)
  show ?thesis
    using h n job_valid_from_first_write [OF h, of refuse_numbers no_jobs "[]"]
    by (simp add: idle_server_def)
qed

section \<open>A failing stage handler\<close>

text \<open>
  Claim C2. Let the computation of a stage raise the exception \<open>e\<close>, the computations of
  the stages before it having completed. Then \<open>process_image\<close> catches the exception and
  returns; the last state of the job has the text of \<open>e\<close> in \<open>error\<close>, \<open>is_completed\<close>
  true, \<open>current_stage\<close> the name of the failing stage and \<open>progress\<close> the target of that
  stage, so nothing is rolled back; and the writes of the run are those of the stages of
  the table up to the failing one, then the single write of the exception handler: no
  later stage is entered.
\<close>

theorem failing_handler_halts_pipeline:
  "first_failure work = Some ((name, label, target), e) \<Longrightarrow>
     outcome (process_image work job_id image_data config) js = None
   \<and> last (run (process_image work job_id image_data config) js) job_id
       = Some \<lparr>status = ''processing'', current_stage = name, progress = target,
               is_completed = True, error = Some (str_exn e), assets = None\<rparr>
   \<and> map (stage_of job_id) (run (process_image work job_id image_data config) js)
       = map (\<lambda>(n, l, p). Some (n, p))
           (takeWhile (\<lambda>st. fst st \<noteq> name) STAGES @ [(name, label, target)])
         @ [Some (name, target)]"
  by (cases rule: plan_cases [of work])
     (auto simp add: first_failure_def handler_stages_def STAGES_def pipeline_defs stage_of_def)

text \<open>A failure injected at \<open>mesh_generation\<close>, the scenario of the specification.\<close>

theorem failing_handler_halts_pipeline_witness:
  "first_failure (fail_at ''mesh_generation'' (Exception ''out of memory''))
     = Some ((''mesh_generation'', ''RenderNet 3D mesh creation...'', 5/10),
             Exception ''out of memory'')
   \<and> outcome
         (process_image (fail_at ''mesh_generation'' (Exception ''out of memory''))
            ''job-1'' ''image'' ())
         no_jobs
       = None
   \<and> last
         (run
            (process_image (fail_at ''mesh_generation'' (Exception ''out of memory''))
               ''job-1'' ''image'' ())
            no_jobs)
         ''job-1''
       = Some \<lparr>status = ''processing'', current_stage = ''mesh_generation'', progress = 5/10,
               is_completed = True, error = Some ''out of memory'', assets = None\<rparr>
   \<and> map (stage_of ''job-1'')
         (run
            (process_image (fail_at ''mesh_generation'' (Exception ''out of memory''))
               ''job-1'' ''image'' ())
            no_jobs)
       = [Some (''uploading'', 1/10), Some (''segmentation'', 2/10),
          Some (''depth_analysis'', 3/10), Some (''mesh_generation'', 5/10),
          Some (''mesh_generation'', 5/10)]"
proof -
  have h: "first_failure (fail_at ''mesh_generation'' (Exception ''out of memory''))
     = Some ((''mesh_generation'', ''RenderNet 3D mesh creation...'', 5/10),
             Exception ''out of memory'')"
    by (simp add: first_failure_def handler_stages_def STAGES_def fail_at_def)
  show ?thesis
    using h failing_handler_halts_pipeline [OF h, of "''job-1''" "''image''" "()" no_jobs]
    by (simp add: STAGES_def)
qed

section \<open>Successful completion and polling\<close>

text \<open>
  Claim C3. When no computation raises, the last write of \<open>process_image\<close> leaves the job
  with \<open>current_stage\<close> \<open>completed\<close>, \<open>progress\<close> 1, \<open>is_completed\<close> true and \<open>assets\<close> the
  result with the keys \<open>modelURL\<close>, \<open>textureURL\<close>, \<open>animationData\<close> and \<open>metadata\<close>. The
  status query on that job does not return it: the value under \<open>metadata\<close> is a nested
  dictionary, the response model declares the values of \<open>assets\<close> to be strings, and
  building the response raises a validation error at \<open>assets.metadata\<close>, whatever the
  validation does with numbers.
\<close>

theorem completed_job_status_raises:
  "last (run (process_image stub job_id image_data config) js) job_id
     = Some \<lparr>status = ''processing'', current_stage = ''completed'', progress = 1,
             is_completed = True, error = None, assets = Some (result_assets job_id)\<rparr>
   \<and> map fst (result_assets job_id)
       = [''modelURL'', ''textureURL'', ''animationData'', ''metadata'']
   \<and> get_processing_status num_str job_id
         \<lparr>jobs = last (run (process_image stub job_id image_data config) js), tasks = ts\<rparr>
       = Inl (ValidationError [[''assets'', ''metadata'']])"
  by (simp add: pipeline_defs stub_def get_processing_status_def new_JobStatus_def
        result_assets_def metadata_def)

section \<open>Progress from the initialisation on\<close>




section \<open>Completion within one run\<close>

text \<open>
  Claim C5 says that no operation ever sets \<open>is_completed\<close> back to false. The opening
  assignment of \<open>process_image\<close> does: a submission whose identifier is \<open>job-1\<close>, on a
  registry that holds a finished \<open>job-1\<close>, schedules the pipeline under \<open>job-1\<close>, and the
  first write of that pipeline leaves \<open>is_completed\<close> false where it was true.
\<close>

theorem is_completed_reset_counterexample:
  "map_option is_completed (one_finished ''job-1'') = Some True
   \<and> tasks (snd (process_avatar accept_json stub ''job-1'' (Inr ''image'') ''{}''
                   \<lparr>jobs = one_finished, tasks = []\<rparr>))
       = [process_image stub ''job-1'' ''image'' ()]
   \<and> map_option is_completed
         (hd (run (process_image stub ''job-1'' ''image'' ()) one_finished) ''job-1'')
       = Some False
   \<and> \<not> no_reset ''job-1'' one_finished
           (hd (run (process_image stub ''job-1'' ''image'' ()) one_finished))"
  by (simp add: one_finished_def no_jobs_def finished_job_def pipeline_defs stub_def
        no_reset_def process_avatar_def Let_def accept_json_def)

text \<open>
  Claim C5, as the code has it. In any run of \<open>process_image\<close> there are at least two
  writes; \<open>is_completed\<close> is false after each of them but the last and true after the
  last, which is the final update or the write of the exception handler. So within a run
  it is false at the initialisation, turns true once, and no write of the run follows that
  could reset it. The run of a pipeline under another identifier leaves the entry of this
  one as it is, a submission does not touch the registry, and the queries are functions of
  the state. The opening assignment sets \<open>is_completed\<close> to false whatever was stored: the
  whole history, from the registry the run starts on through the states after each write,
  is free of resets exactly when the identifier was not in that registry or was there not
  completed.
\<close>

theorem is_completed_latch:
  "map (\<lambda>js'. map_option is_completed (js' job_id))
       (run (process_image work job_id image_data config) js)
     = replicate (length (run (process_image work job_id image_data config) js) - 1) (Some False)
       @ [Some True]
   \<and> 2 \<le> length (run (process_image work job_id image_data config) js)
   \<and> (job_id' \<noteq> job_id \<longrightarrow>
        list_all (\<lambda>js'. js' job_id = js job_id)
          (run (process_image work' job_id' image_data' config') js))
   \<and> jobs (snd (process_avatar json_loads work' new_id photo request_config s)) = jobs s
   \<and> sorted_wrt (no_reset job_id) (js # run (process_image work job_id image_data config) js)
       = (case js job_id of None \<Rightarrow> True | Some old \<Rightarrow> \<not> is_completed old)"
proof -
  have latch:
    "map (\<lambda>js'. map_option is_completed (js' job_id))
         (run (process_image work job_id image_data config) js)
       = replicate (length (run (process_image work job_id image_data config) js) - 1) (Some False)
         @ [Some True]
     \<and> 2 \<le> length (run (process_image work job_id image_data config) js)"
    by (cases rule: plan_cases [of work]) (simp_all add: pipeline_defs)
  have submit: "jobs (snd (process_avatar json_loads work' new_id photo request_config s)) = jobs s"
    by (simp add: process_avatar_def Let_def split: sum.splits)
  have frame:
    "job_id' \<noteq> job_id \<longrightarrow>
       list_all (\<lambda>js'. js' job_id = js job_id)
         (run (process_image work' job_id' image_data' config') js)"
    by (rule impI) (rule run_frame)
  have history:
    "sorted_wrt (no_reset job_id) (js # run (process_image work job_id image_data config) js)
       = (case js job_id of None \<Rightarrow> True | Some old \<Rightarrow> \<not> is_completed old)"
    by (cases rule: plan_cases [of work])
       (auto simp add: pipeline_defs no_reset_def split: option.splits)
  from latch frame submit history show ?thesis by (simp only: simp_thms)
qed

text \<open>
  A finished job \<open>job-1\<close> stays as it is through the whole run of the pipeline of \<open>job-2\<close>,
  and the history of a pipeline started under an identifier that is not in the registry
  is free of resets.
\<close>

theorem is_completed_latch_witness:
  "''job-2'' \<noteq> ''job-1''
   \<and> one_finished ''job-1'' = Some finished_job
   \<and> is_completed finished_job
   \<and> list_all (\<lambda>js'. js' ''job-1'' = Some finished_job)
       (run (process_image stub ''job-2'' ''image'' ()) one_finished)
   \<and> one_finished ''job-2'' = None
   \<and> sorted_wrt (no_reset ''job-2'')
       (one_finished # run (process_image stub ''job-2'' ''image'' ()) one_finished)"
proof -
  have d: "''job-2'' \<noteq> ''job-1''"
    by simp
  have f: "one_finished ''job-1'' = Some finished_job"
    by (simp add: one_finished_def)
  have c: "is_completed finished_job"
    by (simp add: finished_job_def)
  have n: "one_finished ''job-2'' = None"
    by (simp add: one_finished_def no_jobs_def)
  have other: "list_all (\<lambda>js'. js' ''job-1'' = one_finished ''job-1'')
       (run (process_image stub ''job-2'' ''image'' ()) one_finished)"
    using d
      is_completed_latch
        [where job_id = "''job-1''" and job_id' = "''job-2''" and js = one_finished
           and work' = stub and image_data' = "''image''" and config' = "()"
           and work = stub and image_data = "''image''" and config = "()"
           and json_loads = accept_json and new_id = "''job-2''" and photo = "Inr ''image''"
           and request_config = "''{}''" and s = idle_server]
    by (simp only: simp_thms)
  have own: "sorted_wrt (no_reset ''job-2'')
       (one_finished # run (process_image stub ''job-2'' ''image'' ()) one_finished)"
    using n
      is_completed_latch
        [where job_id = "''job-2''" and job_id' = "''job-1''" and js = one_finished
           and work' = stub and image_data' = "''image''" and config' = "()"
           and work = stub and image_data = "''image''" and config = "()"
           and json_loads = accept_json and new_id = "''job-2''" and photo = "Inr ''image''"
           and request_config = "''{}''" and s = idle_server]
    by simp
  from d f c n other own show ?thesis
    by (simp only: simp_thms)
qed

section \<open>Assets and error at the end of a job\<close>

text \<open>
  Claim C6 says that a job ended by a failing handler has a non-empty \<open>error\<close>. The field
  holds the text of the exception, and that text can be empty: when the computation of
  \<open>mesh_generation\<close> raises an exception without a message, the job ends with
  \<open>is_completed\<close> true, no assets, and the empty string as \<open>error\<close>.
\<close>

theorem empty_error_message_counterexample:
  "first_failure (fail_at ''mesh_generation'' (Exception []))
     = Some ((''mesh_generation'', ''RenderNet 3D mesh creation...'', 5/10), Exception [])
   \<and> map_option (\<lambda>j. (is_completed j, assets j, error j))
         (last
            (run (process_image (fail_at ''mesh_generation'' (Exception [])) ''job-1'' ''image'' ())
               no_jobs)
            ''job-1'')
       = Some (True, None, Some [])"
  by (simp add: first_failure_def handler_stages_def STAGES_def fail_at_def pipeline_defs
        no_jobs_def)

text \<open>
  Claim C6, as the code has it. A job whose computations all complete ends with
  \<open>is_completed\<close> true, the result as \<open>assets\<close> and no \<open>error\<close>. A job one of whose
  computations raises ends with \<open>is_completed\<close> true, no \<open>assets\<close>, and \<open>error\<close>
  present: it is the text of the first exception raised, empty exactly when that text is.
\<close>

theorem terminal_job_assets_or_error:
  "(first_failure work = None \<longrightarrow>
      map_option (\<lambda>j. (is_completed j, assets j, error j))
          (last (run (process_image work job_id image_data config) js) job_id)
        = Some (True, Some (result_assets job_id), None))
   \<and> (first_failure work = Some (st, e) \<longrightarrow>
      map_option (\<lambda>j. (is_completed j, assets j, error j))
          (last (run (process_image work job_id image_data config) js) job_id)
        = Some (True, None, Some (str_exn e)))"
  by (cases rule: plan_cases [of work])
     (auto simp add: first_failure_def handler_stages_def STAGES_def pipeline_defs)

text \<open>Both cases occur: the stub handlers of the source, and a failure at \<open>rigging\<close>.\<close>

theorem terminal_job_assets_or_error_witness:
  "first_failure stub = None
   \<and> map_option (\<lambda>j. (is_completed j, assets j, error j))
         (last (run (process_image stub ''job-1'' ''image'' ()) no_jobs) ''job-1'')
       = Some (True, Some (result_assets ''job-1''), None)
   \<and> first_failure (fail_at ''rigging'' (Exception ''no rig''))
       = Some ((''rigging'', ''Adding facial blendshapes...'', 8/10), Exception ''no rig'')
   \<and> map_option (\<lambda>j. (is_completed j, assets j, error j))
         (last
            (run (process_image (fail_at ''rigging'' (Exception ''no rig'')) ''job-1'' ''image'' ())
               no_jobs)
            ''job-1'')
       = Some (True, None, Some ''no rig'')"
proof -
  have ok: "first_failure stub = None"
    by (simp add: first_failure_def handler_stages_def STAGES_def stub_def)
  have bad: "first_failure (fail_at ''rigging'' (Exception ''no rig''))
       = Some ((''rigging'', ''Adding facial blendshapes...'', 8/10), Exception ''no rig'')"
    by (simp add: first_failure_def handler_stages_def STAGES_def fail_at_def)
  show ?thesis
    using ok bad
      terminal_job_assets_or_error
        [where work = stub and job_id = "''job-1''" and image_data = "''image''"
           and config = "()" and js = no_jobs]
      terminal_job_assets_or_error
        [where work = "fail_at ''rigging'' (Exception ''no rig'')"
           and st = "(''rigging'', ''Adding facial blendshapes...'', 8/10)"
           and e = "Exception ''no rig''" and job_id = "''job-1''" and image_data = "''image''"
           and config = "()" and js = no_jobs]
    by simp
qed

section \<open>The order of the stages\<close>

text \<open>
  Claim C7. When no computation raises, the writes of \<open>process_image\<close> set
  \<open>current_stage\<close> and \<open>progress\<close> to the names and targets of the stage table, entry by
  entry and in the order of the table, from \<open>uploading\<close> to \<open>completed\<close>, and the task
  returns. The write of a stage comes before its computation: at the successive sleeps of
  the run, which stand for the computations of the handlers, the registry shows the stages
  that have a handler, each with its target, in the order of the table. The targets of the
  table increase strictly.
\<close>

theorem process_image_follows_STAGES:
  "map (stage_of job_id) (run (process_image stub job_id image_data config) js)
     = map (\<lambda>(name, label, target). Some (name, target)) STAGES
   \<and> map (stage_of job_id) (suspensions (process_image stub job_id image_data config) js)
     = map (\<lambda>(name, label, target). Some (name, target)) handler_stages
   \<and> sorted_wrt (<) (map (\<lambda>(name, label, target). target) STAGES)
   \<and> outcome (process_image stub job_id image_data config) js = None"
  by (simp add: pipeline_defs stub_def STAGES_def handler_stages_def stage_of_def)

section \<open>The status query on unknown identifiers\<close>

text \<open>
  Claim C8. In every state of the server, the status query for an identifier that is not a
  key of the registry raises the HTTP exception 404 "Job not found"; in particular it
  returns no job status at all, so no default or empty one.
\<close>

theorem status_unknown_id_not_found:
  "jobs s job_id = None \<Longrightarrow>
     get_processing_status num_str job_id s = Inl (HTTPException 404 ''Job not found'')
     \<and> (\<forall>st. get_processing_status num_str job_id s \<noteq> Inr st)"
  by (simp add: get_processing_status_def)

theorem status_unknown_id_not_found_witness:
  "jobs idle_server ''no-such-job'' = None
   \<and> get_processing_status refuse_numbers ''no-such-job'' idle_server
       = Inl (HTTPException 404 ''Job not found'')"
  using status_unknown_id_not_found [of idle_server "''no-such-job''" refuse_numbers]
  by (simp add: idle_server_def no_jobs_def)

section \<open>Creating a job under an identifier in use\<close>

text \<open>
  Claim C9 says that creating a job under an identifier that is already in the registry
  fails and leaves the existing job as it is. The only creation in the program is the
  assignment that opens \<open>process_image\<close>, and it overwrites: started under \<open>job-1\<close> on a
  registry that holds a finished \<open>job-1\<close>, the pipeline first stores the initial job in its
  place, not completed again, and runs to its end without raising.
\<close>

theorem create_overwrites_counterexample:
  "one_finished ''job-1'' = Some finished_job
   \<and> hd (run (process_image stub ''job-1'' ''image'' ()) one_finished) ''job-1''
       = Some initial_job
   \<and> initial_job \<noteq> finished_job
   \<and> is_completed finished_job
   \<and> \<not> is_completed initial_job
   \<and> outcome (process_image stub ''job-1'' ''image'' ()) one_finished = None"
  by (simp add: one_finished_def no_jobs_def finished_job_def pipeline_defs stub_def)

text \<open>
  Claim C9, as the code has it. Creating a job under an identifier that is already in the
  registry does not fail: the assignment succeeds and replaces the existing job by the
  initial one, leaving the other entries of the registry as they are. It is the first
  write of every run of \<open>process_image\<close>.
\<close>

theorem create_overwrites_existing_job:
  "js job_id = Some old \<Longrightarrow>
     exec (Assign job_id initial_job) js = Inr (js(job_id \<mapsto> initial_job))
   \<and> run (process_image work job_id image_data config) js \<noteq> []
   \<and> hd (run (process_image work job_id image_data config) js) = js(job_id \<mapsto> initial_job)
   \<and> hd (run (process_image work job_id image_data config) js) job_id = Some initial_job"
  using run_first_write [of work job_id image_data config js] by simp

theorem create_overwrites_existing_job_witness:
  "one_finished ''job-1'' = Some finished_job
   \<and> exec (Assign ''job-1'' initial_job) one_finished
       = Inr (one_finished(''job-1'' \<mapsto> initial_job))
   \<and> hd (run (process_image stub ''job-1'' ''image'' ()) one_finished) ''job-1''
       = Some initial_job"
proof -
  have h: "one_finished ''job-1'' = Some finished_job"
    by (simp add: one_finished_def)
  show ?thesis
    using h
      create_overwrites_existing_job
        [where js = one_finished and job_id = "''job-1''" and old = finished_job
           and work = stub and image_data = "''image''" and config = "()"]
    by simp
qed

section \<open>The asset endpoint\<close>

text \<open>
  Claim C10. For every job identifier and every file name, in every state of the server,
  \<open>get_asset\<close> returns the JSON placeholder whose message names the file and the job. The
  answer does not depend on the registry: it is the same whether the identifier was never
  created, is in progress or ended with an error, and it is never a not-found condition.
\<close>

theorem get_asset_placeholder:
  "get_asset job_id filename s = Inr [(''message'', ''Asset '' @ filename @ '' for job '' @ job_id)]
   \<and> get_asset job_id filename s = get_asset job_id filename s'
   \<and> get_asset job_id filename s \<noteq> Inl (HTTPException 404 detail)"
  by (simp add: get_asset_def)

end
